theory Spec2Isabelle
  imports Main "HOL-Library.Sublist"
begin

section \<open>Python values, errors and sequences\<close>

text \<open>
  The module \<^verbatim>\<open>attorch/dataset.py\<close> is embedded function by function. Every exception the
  source can raise is a value: a method returns \<open>error + 'a\<close>, with \<open>Inl\<close> for the raise.
  A failed \<^verbatim>\<open>assert\<close> raises \<open>AssertionError\<close> with the message of the statement; this
  is what the specification calls a configuration error.
  The methods \<^verbatim>\<open>mean\<close>, \<^verbatim>\<open>__iter__\<close> and the \<^verbatim>\<open>__repr__\<close> of the adapters are not embedded:
  nothing below depends on them.
\<close>

datatype error =
    AssertionError string
  | IndexError
  | TypeError
  | KeyError string
  | AttributeError string
  | OSError

text \<open>
  \<^verbatim>\<open>xs[i]\<close> on a tuple, a list, an array or a stored dataset, with an integer index: a
  negative index counts from the end, an index outside the sequence raises.
\<close>

definition getitem :: "'a list \<Rightarrow> int \<Rightarrow> error + 'a" where
  "getitem xs i =
     (if 0 \<le> i \<and> i < int (length xs) then Inr (xs ! nat i)
      else if i < 0 \<and> - int (length xs) \<le> i then Inr (xs ! nat (int (length xs) + i))
      else Inl IndexError)"

text \<open>\<^verbatim>\<open>tuple(d[index] for d in data)\<close>: the first failing read ends the comprehension.\<close>

fun gather :: "('d \<Rightarrow> int \<Rightarrow> error + 'r) \<Rightarrow> 'd list \<Rightarrow> int \<Rightarrow> error + 'r list" where
  "gather rd [] i = Inr []"
| "gather rd (d # ds) i =
     (case rd d i of
        Inl e \<Rightarrow> Inl e
      | Inr r \<Rightarrow> (case gather rd ds i of Inl e \<Rightarrow> Inl e | Inr rs \<Rightarrow> Inr (r # rs)))"

text \<open>\<^verbatim>\<open>sep.join(xs)\<close>.\<close>

fun join :: "string \<Rightarrow> string list \<Rightarrow> string" where
  "join sep [] = []"
| "join sep [x] = x"
| "join sep (x # y # ys) = x @ sep @ join sep (y # ys)"

section \<open>Arrays, tensors and variables\<close>

text \<open>
  A numpy array is its \<^verbatim>\<open>shape\<close> tuple and its elements in row-major order. \<^verbatim>\<open>d[i]\<close> is the
  \<open>i\<close>-th slice along the first dimension; an array of dimension zero has none.
  \<^verbatim>\<open>d.astype(np.float32)\<close> casts element by element and keeps the shape; the cast of one
  element is a parameter.
\<close>

record 'a ndarray =
  shape :: "nat list"
  flat :: "'a list"

definition ndarray_getitem :: "'a ndarray \<Rightarrow> int \<Rightarrow> error + 'a ndarray" where
  "ndarray_getitem d i =
     (case shape d of
        [] \<Rightarrow> Inl IndexError
      | n # rest \<Rightarrow>
          (case getitem [0..<n] i of
             Inl e \<Rightarrow> Inl e
           | Inr j \<Rightarrow> Inr \<lparr>shape = rest,
                          flat = take (prod_list rest) (drop (j * prod_list rest) (flat d))\<rparr>))"

definition astype :: "('a \<Rightarrow> 'b) \<Rightarrow> 'a ndarray \<Rightarrow> 'b ndarray" where
  "astype cast d = \<lparr>shape = shape d, flat = map cast (flat d)\<rparr>"

text \<open>
  A torch tensor is an array with a device. \<^verbatim>\<open>torch.from_numpy\<close> wraps an array on the host,
  \<^verbatim>\<open>t[i]\<close> slices as the array does, \<^verbatim>\<open>t.size(0)\<close> is the first entry of the shape.
\<close>

datatype device = CPU | CUDA

datatype 'a tensor = Tensor (array: "'a ndarray") (device: device)

definition from_numpy :: "'a ndarray \<Rightarrow> 'a tensor" where
  "from_numpy d = Tensor d CPU"

definition tensor_getitem :: "'a tensor \<Rightarrow> int \<Rightarrow> error + 'a tensor" where
  "tensor_getitem t i =
     (case ndarray_getitem (array t) i of
        Inl e \<Rightarrow> Inl e
      | Inr r \<Rightarrow> Inr (Tensor r (device t)))"

definition size0 :: "'a tensor \<Rightarrow> error + nat" where
  "size0 t = getitem (shape (array t)) 0"

definition cuda :: "'a tensor \<Rightarrow> 'a tensor" where
  "cuda t = Tensor (array t) CUDA"

definition cpu :: "'a tensor \<Rightarrow> 'a tensor" where
  "cpu t = Tensor (array t) CPU"

text \<open>
  \<^verbatim>\<open>Variable(v, **kwargs)\<close> wraps a value together with the keyword options; a position that
  the conversion helper leaves alone stays \<open>Unconverted\<close>.
\<close>

datatype ('t, 'k) wrapped = Unconverted 't | Variable 't 'k

section \<open>Transforms\<close>

text \<open>
  The three transform classes and their base class. \<open>TransformFromFuncs\<close> carries its two
  attributes: \<^verbatim>\<open>transformees\<close>, set by the constructor to the empty list, and
  \<^verbatim>\<open>_transforms\<close>, which exists only after \<^verbatim>\<open>initialize\<close> (hence the option).
  Items live in one universe \<open>'v\<close> of Python values, on which \<^verbatim>\<open>torch.from_numpy\<close> is a
  parameter \<open>to_tensor\<close> of the application.
\<close>

datatype 'v transform =
    DataTransform
  | TransformFromFuncs (transformees: "string list") (transforms: "('v \<Rightarrow> 'v) list option")
  | ToTensor
  | Chain "'v transform list"

text \<open>
  The loop of \<^verbatim>\<open>TransformFromFuncs.initialize\<close> over \<^verbatim>\<open>dataset.data_keys\<close>. The first
  argument holds the attributes of the dataset whose names end in \<^verbatim>\<open>_transform\<close>, each a
  one-argument function: \<^verbatim>\<open>hasattr\<close> is membership, \<^verbatim>\<open>getattr\<close> is lookup. The state is
  the pair of \<^verbatim>\<open>_transforms\<close> and \<^verbatim>\<open>transformees\<close>.
\<close>

fun initialize_loop ::
  "(string \<rightharpoonup> ('v \<Rightarrow> 'v)) \<Rightarrow> string list \<Rightarrow> ('v \<Rightarrow> 'v) list \<times> string list
     \<Rightarrow> ('v \<Rightarrow> 'v) list \<times> string list" where
  "initialize_loop attrs [] st = st"
| "initialize_loop attrs (d # ds) (trs, tees) =
     (case attrs (d @ ''_transform'') of
        Some f \<Rightarrow> initialize_loop attrs ds (trs @ [f], tees @ [d])
      | None \<Rightarrow> initialize_loop attrs ds (trs @ [\<lambda>x. x], tees))"

fun initialize :: "(string \<rightharpoonup> ('v \<Rightarrow> 'v)) \<Rightarrow> string list \<Rightarrow> 'v transform \<Rightarrow> 'v transform" where
  "initialize attrs keys DataTransform = DataTransform"
| "initialize attrs keys (TransformFromFuncs tees old) =
     (case initialize_loop attrs keys ([], tees) of
        (trs, tees') \<Rightarrow> TransformFromFuncs tees' (Some trs))"
| "initialize attrs keys ToTensor = ToTensor"
| "initialize attrs keys (Chain ts) = Chain (map (initialize attrs keys) ts)"

text \<open>
  \<^verbatim>\<open>__call__\<close>. The base class defines none, and \<^verbatim>\<open>_transforms\<close> is missing before
  \<^verbatim>\<open>initialize\<close>. \<^verbatim>\<open>zip\<close> stops at the shorter of its two arguments.
\<close>

fun call :: "('v \<Rightarrow> 'v) \<Rightarrow> 'v transform \<Rightarrow> 'v list \<Rightarrow> error + 'v list"
  and call_chain :: "('v \<Rightarrow> 'v) \<Rightarrow> 'v transform list \<Rightarrow> 'v list \<Rightarrow> error + 'v list" where
  "call to_tensor DataTransform item = Inl TypeError"
| "call to_tensor (TransformFromFuncs tees None) item = Inl (AttributeError ''_transforms'')"
| "call to_tensor (TransformFromFuncs tees (Some trs)) item =
     Inr (map (\<lambda>(tr, it). tr it) (zip trs item))"
| "call to_tensor ToTensor item = Inr (map to_tensor item)"
| "call to_tensor (Chain ts) item = call_chain to_tensor ts item"
| "call_chain to_tensor [] item = Inr item"
| "call_chain to_tensor (tr # ts) item =
     (case call to_tensor tr item of
        Inl e \<Rightarrow> Inl e
      | Inr item' \<Rightarrow> call_chain to_tensor ts item')"

text \<open>\<^verbatim>\<open>__repr__\<close>.\<close>

fun repr :: "'v transform \<Rightarrow> string" where
  "repr DataTransform = ''DataTransform''"
| "repr (TransformFromFuncs tees trs) = ''TransformFromFuncs('' @ join '', '' tees @ '')''"
| "repr ToTensor = ''ToTensor''"
| "repr (Chain ts) = ''Chain['' @ join '' -> '' (map repr ts) @ '']''"

section \<open>H5Dataset\<close>

text \<open>
  The opened file maps a key to a stored dataset, the list of its slices along the first
  dimension. \<^verbatim>\<open>h5py.File\<close> is a parameter: it returns the opened file or raises.
  \<open>funcs\<close> holds the \<^verbatim>\<open>_transform\<close> attributes that a subclass defines.
\<close>

type_synonym 'v h5file = "string \<rightharpoonup> 'v list"

record 'v H5Dataset =
  fid :: "'v h5file"
  len :: "nat option"
  data_keys :: "string list"
  info :: "'v list option"
  transform :: "'v transform"
  funcs :: "string \<rightharpoonup> ('v \<Rightarrow> 'v)"

text \<open>The loop over \<^verbatim>\<open>data_keys\<close> in \<^verbatim>\<open>__init__\<close>, with the running value of \<^verbatim>\<open>m\<close>.\<close>

fun check_keys :: "'v h5file \<Rightarrow> nat option \<Rightarrow> string list \<Rightarrow> error + nat option" where
  "check_keys f m [] = Inr m"
| "check_keys f m (key # keys) =
     (case f key of
        None \<Rightarrow> Inl (AssertionError (''Could not find '' @ key @ '' in file''))
      | Some rows \<Rightarrow>
          (case m of
             None \<Rightarrow> check_keys f (Some (length rows)) keys
           | Some n \<Rightarrow>
               if n = length rows then check_keys f m keys
               else Inl (AssertionError ''Length of datasets do not match'')))"

definition H5Dataset_init ::
  "(string \<Rightarrow> error + 'v h5file) \<Rightarrow> string \<Rightarrow> string list \<Rightarrow> string option
     \<Rightarrow> 'v transform option \<Rightarrow> (string \<rightharpoonup> ('v \<Rightarrow> 'v)) \<Rightarrow> error + 'v H5Dataset" where
  "H5Dataset_init h5py_File filename keys info_name tr attrs =
     (case h5py_File filename of
        Inl e \<Rightarrow> Inl e
      | Inr f \<Rightarrow>
          (case check_keys f None keys of
             Inl e \<Rightarrow> Inl e
           | Inr m \<Rightarrow>
               (case (case info_name of
                        None \<Rightarrow> Inr None
                      | Some k \<Rightarrow> (case f k of None \<Rightarrow> Inl (KeyError k) | Some i \<Rightarrow> Inr (Some i))) of
                  Inl e \<Rightarrow> Inl e
                | Inr i \<Rightarrow>
                    Inr \<lparr>fid = f, len = m, data_keys = keys, info = i,
                         transform = initialize attrs keys
                           (case tr of
                              None \<Rightarrow> Chain [TransformFromFuncs [] None, ToTensor]
                            | Some t \<Rightarrow> t),
                         funcs = attrs\<rparr>)))"

definition H5Dataset_read :: "'v h5file \<Rightarrow> string \<Rightarrow> int \<Rightarrow> error + 'v" where
  "H5Dataset_read f d i = (case f d of None \<Rightarrow> Inl (KeyError d) | Some rows \<Rightarrow> getitem rows i)"

definition H5Dataset_getitem :: "('v \<Rightarrow> 'v) \<Rightarrow> 'v H5Dataset \<Rightarrow> int \<Rightarrow> error + 'v list" where
  "H5Dataset_getitem to_tensor ds item =
     (case gather (H5Dataset_read (H5Dataset.fid ds)) (data_keys ds) item of
        Inl e \<Rightarrow> Inl e
      | Inr raw \<Rightarrow> call to_tensor (H5Dataset.transform ds) raw)"

definition H5Dataset_len :: "'v H5Dataset \<Rightarrow> error + nat" where
  "H5Dataset_len ds = (case len ds of None \<Rightarrow> Inl TypeError | Some m \<Rightarrow> Inr m)"

section \<open>MultiTensorDataset\<close>

text \<open>
  The loop \<^verbatim>\<open>for d in data: assert d.shape[0] == data[0].shape[0]\<close>, shared by the two
  in-memory adapters. Reading \<^verbatim>\<open>shape[0]\<close> of an array of dimension zero raises before the
  comparison is made.
\<close>

fun check_first_dimension :: "'a ndarray \<Rightarrow> 'a ndarray list \<Rightarrow> error + unit" where
  "check_first_dimension d0 [] = Inr ()"
| "check_first_dimension d0 (d # ds) =
     (case getitem (shape d) 0 of
        Inl e \<Rightarrow> Inl e
      | Inr n \<Rightarrow>
          (case getitem (shape d0) 0 of
             Inl e \<Rightarrow> Inl e
           | Inr n0 \<Rightarrow>
               if n = n0 then check_first_dimension d0 ds
               else Inl (AssertionError ''datasets must have same first dimension'')))"

record 'b MultiTensorDataset =
  data :: "'b tensor list"
  transform :: "'b tensor list \<Rightarrow> 'b tensor list"

text \<open>\<open>float32\<close> is the cast of one element by \<^verbatim>\<open>astype(np.float32)\<close>.\<close>

definition MultiTensorDataset_init ::
  "('a \<Rightarrow> 'b) \<Rightarrow> 'a ndarray list \<Rightarrow> ('b tensor list \<Rightarrow> 'b tensor list) option
     \<Rightarrow> error + 'b MultiTensorDataset" where
  "MultiTensorDataset_init float32 ds tr =
     (case (case ds of [] \<Rightarrow> Inr () | d0 # _ \<Rightarrow> check_first_dimension d0 ds) of
        Inl e \<Rightarrow> Inl e
      | Inr _ \<Rightarrow>
          Inr \<lparr>data = map (\<lambda>d. from_numpy (astype float32 d)) ds,
               transform = (case tr of None \<Rightarrow> (\<lambda>x. x) | Some t \<Rightarrow> t)\<rparr>)"

definition MultiTensorDataset_getitem ::
  "'b MultiTensorDataset \<Rightarrow> int \<Rightarrow> error + 'b tensor list" where
  "MultiTensorDataset_getitem self index =
     (case gather tensor_getitem (MultiTensorDataset.data self) index of
        Inl e \<Rightarrow> Inl e
      | Inr ret \<Rightarrow> Inr (MultiTensorDataset.transform self ret))"

definition MultiTensorDataset_len :: "'b MultiTensorDataset \<Rightarrow> error + nat" where
  "MultiTensorDataset_len self =
     (case getitem (MultiTensorDataset.data self) 0 of
        Inl e \<Rightarrow> Inl e
      | Inr t \<Rightarrow> size0 t)"

text \<open>
  The methods that may touch the adapter return the adapter they leave behind next to their
  result: \<^verbatim>\<open>as_variables\<close> assigns nothing, \<^verbatim>\<open>cuda_\<close> and \<^verbatim>\<open>cpu_\<close> rebind \<^verbatim>\<open>self.data\<close>.
\<close>

definition MultiTensorDataset_as_variables ::
  "'b MultiTensorDataset \<Rightarrow> 'k \<Rightarrow> ('b tensor, 'k) wrapped list \<times> 'b MultiTensorDataset" where
  "MultiTensorDataset_as_variables self kwargs = (map (\<lambda>v. Variable v kwargs) (MultiTensorDataset.data self), self)"

definition MultiTensorDataset_cuda :: "'b MultiTensorDataset \<Rightarrow> unit \<times> 'b MultiTensorDataset" where
  "MultiTensorDataset_cuda self = ((), self\<lparr>MultiTensorDataset.data := map cuda (MultiTensorDataset.data self)\<rparr>)"

definition MultiTensorDataset_cpu :: "'b MultiTensorDataset \<Rightarrow> unit \<times> 'b MultiTensorDataset" where
  "MultiTensorDataset_cpu self = ((), self\<lparr>MultiTensorDataset.data := map cpu (MultiTensorDataset.data self)\<rparr>)"

section \<open>NumpyDataset\<close>

record 'a NumpyDataset =
  data :: "'a ndarray list"

definition NumpyDataset_init :: "'a ndarray list \<Rightarrow> error + 'a NumpyDataset" where
  "NumpyDataset_init ds =
     (case (case ds of [] \<Rightarrow> Inr () | d0 # _ \<Rightarrow> check_first_dimension d0 ds) of
        Inl e \<Rightarrow> Inl e
      | Inr _ \<Rightarrow> Inr \<lparr>data = ds\<rparr>)"

definition NumpyDataset_getitem :: "'a NumpyDataset \<Rightarrow> int \<Rightarrow> error + 'a ndarray list" where
  "NumpyDataset_getitem self index = gather ndarray_getitem (NumpyDataset.data self) index"

text \<open>
  \<^verbatim>\<open>t(args)\<close> where \<open>t\<close> is a tuple: a tuple is not callable, whatever the arguments.
\<close>

definition call_tuple :: "nat list \<Rightarrow> int list \<Rightarrow> error + nat" where
  "call_tuple t args = Inl TypeError"

text \<open>\<^verbatim>\<open>self.data[0].shape(0)\<close>: the \<^verbatim>\<open>shape\<close> attribute is read, then called.\<close>

definition NumpyDataset_len :: "'a NumpyDataset \<Rightarrow> error + nat" where
  "NumpyDataset_len self =
     (case getitem (NumpyDataset.data self) 0 of
        Inl e \<Rightarrow> Inl e
      | Inr d \<Rightarrow> call_tuple (shape d) [0])"

section \<open>to_variable\<close>

text \<open>
  An element of the iterator is a tuple or a list, or something else. \<^verbatim>\<open>zip(filter, elem)\<close>
  iterates the element: for a tuple or list these are its entries, for anything else the
  parameter \<open>py_iter\<close> says what iterating it yields, or that it raises. \<open>to_cuda\<close> is
  \<^verbatim>\<open>e.cuda()\<close>. The generator is the list of the tuples it yields and the exception that
  ends it, if any. \<open>filter_opt\<close> is the argument \<^verbatim>\<open>filter\<close>.
\<close>

datatype 't element = Seq "'t list" | NonSeq 't

definition infer_filter :: "'t element \<Rightarrow> bool list" where
  "infer_filter elem = (case elem of NonSeq x \<Rightarrow> [True] | Seq xs \<Rightarrow> replicate (length xs) True)"

fun to_variable ::
  "('t \<Rightarrow> error + 't list) \<Rightarrow> ('t \<Rightarrow> 't) \<Rightarrow> 't element list \<Rightarrow> bool \<Rightarrow> bool list option \<Rightarrow> 'k
     \<Rightarrow> ('t, 'k) wrapped list list \<times> error option" where
  "to_variable py_iter to_cuda [] cuda_flag filter_opt kwargs = ([], None)"
| "to_variable py_iter to_cuda (elem # rest) cuda_flag filter_opt kwargs =
     (let flt = (case filter_opt of None \<Rightarrow> infer_filter elem | Some f \<Rightarrow> f) in
      case (case elem of Seq xs \<Rightarrow> Inr xs | NonSeq x \<Rightarrow> py_iter x) of
        Inl e \<Rightarrow> ([], Some e)
      | Inr es \<Rightarrow>
          (case to_variable py_iter to_cuda rest cuda_flag (Some flt) kwargs of
             (ys, err) \<Rightarrow>
               ((if cuda_flag
                 then map (\<lambda>(f, e). if f then Variable (to_cuda e) kwargs else Unconverted e)
                        (zip flt es)
                 else map (\<lambda>(f, e). if f then Variable e kwargs else Unconverted e)
                        (zip flt es)) # ys, err)))"

text \<open>
  \<open>to_variable\<close> above takes \<^verbatim>\<open>Variable(e, **kwargs)\<close> and \<^verbatim>\<open>e.cuda()\<close> on values that
  they accept: the docstring gives the iterator tuples of tensors. On other values they
  raise, and the exception ends the generator inside the tuple it is building. The same
  generator with both as parameters that return an error or a value: \<open>convert\<close> is the
  generator expression \<^verbatim>\<open>tuple(Variable(...) if f else e for f, e in zip(filter, elem))\<close>,
  whose first argument is \<^verbatim>\<open>e.cuda()\<close> in the first branch of \<^verbatim>\<open>if cuda\<close> and nothing
  (\<open>Inr\<close>) in the second.
\<close>

fun convert ::
  "('t \<Rightarrow> error + 't) \<Rightarrow> ('t \<Rightarrow> 'k \<Rightarrow> error + ('t, 'k) wrapped) \<Rightarrow> 'k \<Rightarrow> (bool \<times> 't) list
     \<Rightarrow> error + ('t, 'k) wrapped list" where
  "convert move wrap kwargs [] = Inr []"
| "convert move wrap kwargs ((f, e) # rest) =
     (if f
      then (case move e of
              Inl x \<Rightarrow> Inl x
            | Inr e' \<Rightarrow>
                (case wrap e' kwargs of
                   Inl x \<Rightarrow> Inl x
                 | Inr w \<Rightarrow>
                     (case convert move wrap kwargs rest of
                        Inl x \<Rightarrow> Inl x
                      | Inr ws \<Rightarrow> Inr (w # ws))))
      else (case convert move wrap kwargs rest of
              Inl x \<Rightarrow> Inl x
            | Inr ws \<Rightarrow> Inr (Unconverted e # ws)))"

fun to_variable_raising ::
  "('t \<Rightarrow> error + 't list) \<Rightarrow> ('t \<Rightarrow> error + 't) \<Rightarrow> ('t \<Rightarrow> 'k \<Rightarrow> error + ('t, 'k) wrapped)
     \<Rightarrow> 't element list \<Rightarrow> bool \<Rightarrow> bool list option \<Rightarrow> 'k
     \<Rightarrow> ('t, 'k) wrapped list list \<times> error option" where
  "to_variable_raising py_iter to_cuda wrap [] cuda_flag filter_opt kwargs = ([], None)"
| "to_variable_raising py_iter to_cuda wrap (elem # rest) cuda_flag filter_opt kwargs =
     (let flt = (case filter_opt of None \<Rightarrow> infer_filter elem | Some f \<Rightarrow> f) in
      case (case elem of Seq xs \<Rightarrow> Inr xs | NonSeq x \<Rightarrow> py_iter x) of
        Inl e \<Rightarrow> ([], Some e)
      | Inr es \<Rightarrow>
          (case (if cuda_flag
                 then convert to_cuda wrap kwargs (zip flt es)
                 else convert Inr wrap kwargs (zip flt es)) of
             Inl e \<Rightarrow> ([], Some e)
           | Inr y \<Rightarrow>
               (case to_variable_raising py_iter to_cuda wrap rest cuda_flag (Some flt) kwargs of
                  (ys, err) \<Rightarrow> (y # ys, err))))"

text \<open>
  The values of the elements, as far as the two calls tell them apart: a Python number or a
  tensor. \<^verbatim>\<open>Variable\<close> takes a tensor and raises \<open>TypeError\<close> on a number; a number has no
  attribute \<^verbatim>\<open>cuda\<close>.
\<close>

datatype 'a pyval = PyInt int | PyTensor "'a tensor"

definition torch_Variable :: "'a pyval \<Rightarrow> 'k \<Rightarrow> error + ('a pyval, 'k) wrapped" where
  "torch_Variable e kwargs =
     (case e of PyInt n \<Rightarrow> Inl TypeError | PyTensor t \<Rightarrow> Inr (Variable (PyTensor t) kwargs))"

definition torch_cuda :: "'a pyval \<Rightarrow> error + 'a pyval" where
  "torch_cuda e =
     (case e of PyInt n \<Rightarrow> Inl (AttributeError ''cuda'') | PyTensor t \<Rightarrow> Inr (PyTensor (cuda t)))"

section \<open>ListDataset\<close>

record 'a ListDataset =
  transform :: "('a list \<Rightarrow> 'a list) option"
  data :: "'a list list"

fun check_len :: "'a list \<Rightarrow> 'a list list \<Rightarrow> error + unit" where
  "check_len d0 [] = Inr ()"
| "check_len d0 (d # ds) =
     (if length d = length d0 then check_len d0 ds
      else Inl (AssertionError ''datasets must have same first dimension''))"

definition ListDataset_init ::
  "'a list list \<Rightarrow> ('a list \<Rightarrow> 'a list) option \<Rightarrow> error + 'a ListDataset" where
  "ListDataset_init ds tr =
     (case (case ds of [] \<Rightarrow> Inr () | d0 # _ \<Rightarrow> check_len d0 ds) of
        Inl e \<Rightarrow> Inl e
      | Inr _ \<Rightarrow> Inr \<lparr>transform = tr, data = ds\<rparr>)"

definition ListDataset_getitem :: "'a ListDataset \<Rightarrow> int \<Rightarrow> error + 'a list" where
  "ListDataset_getitem self index =
     (case ListDataset.transform self of
        Some tr \<Rightarrow>
          (case gather getitem (ListDataset.data self) index of
             Inl e \<Rightarrow> Inl e
           | Inr ret \<Rightarrow> Inr (tr ret))
      | None \<Rightarrow> gather getitem (ListDataset.data self) index)"

definition ListDataset_len :: "'a ListDataset \<Rightarrow> error + nat" where
  "ListDataset_len self = Inr (length (ListDataset.data self))"

section \<open>Concrete collaborators\<close>

text \<open>
  \<^verbatim>\<open>h5py.File(filename, 'r')\<close> over a file system that maps a name to the content of the
  file: a name that is not there raises.
\<close>

definition open_file :: "(string \<rightharpoonup> 'v h5file) \<Rightarrow> string \<Rightarrow> error + 'v h5file" where
  "open_file fs filename = (case fs filename of None \<Rightarrow> Inl OSError | Some f \<Rightarrow> Inr f)"

text \<open>Iterating a value that is not iterable, a number for instance.\<close>

definition not_iterable :: "'t \<Rightarrow> error + 't list" where
  "not_iterable x = Inl TypeError"

text \<open>
  The fields of \<^verbatim>\<open>data_keys\<close>, in order, for which the dataset has a \<^verbatim>\<open>_transform\<close>
  attribute.
\<close>

definition customized :: "(string \<rightharpoonup> ('v \<Rightarrow> 'v)) \<Rightarrow> string list \<Rightarrow> string list" where
  "customized attrs keys = filter (\<lambda>d. attrs (d @ ''_transform'') \<noteq> None) keys"

section \<open>Reading tuples and running the loops\<close>

lemma gather_Inr_all2:
  "gather rd ds i = Inr rs \<Longrightarrow> list_all2 (\<lambda>d r. rd d i = Inr r) ds rs"
proof (induction ds arbitrary: rs)
  case Nil
  then show ?case by simp
next
  case (Cons d ds)
  from Cons.prems obtain r where r: "rd d i = Inr r"
    by (cases "rd d i") auto
  with Cons.prems obtain rs' where rs': "gather rd ds i = Inr rs'"
    by (cases "gather rd ds i") auto
  with r Cons.prems have "rs = r # rs'" by simp
  with r Cons.IH[OF rs'] show ?case by simp
qed

lemma gather_Inr_nth:
  assumes "gather rd ds i = Inr rs"
  shows "length rs = length ds" and "k < length ds \<Longrightarrow> rd (ds ! k) i = Inr (rs ! k)"
  using gather_Inr_all2[OF assms] by (auto simp: list_all2_conv_all_nth)

lemma gather_total:
  assumes "\<forall>d\<in>set ds. \<exists>r. rd d i = Inr r"
  shows "\<exists>rs. gather rd ds i = Inr rs"
  using assms
proof (induction ds)
  case Nil
  show ?case by simp
next
  case (Cons d ds)
  then obtain r rs where "rd d i = Inr r" "gather rd ds i = Inr rs" by auto
  then show ?case by simp
qed

lemma gather_Inl_first:
  assumes "rd d i = Inl e"
  shows "gather rd (d # ds) i = Inl e"
  using assms by simp

lemma initialize_loop_eq:
  "initialize_loop attrs keys (trs, tees) =
     (trs @ map (\<lambda>d. case attrs (d @ ''_transform'') of Some f \<Rightarrow> f | None \<Rightarrow> (\<lambda>x. x)) keys,
      tees @ customized attrs keys)"
  by (induction keys arbitrary: trs tees) (auto simp: customized_def split: option.splits)

lemma initialize_TransformFromFuncs:
  "initialize attrs keys (TransformFromFuncs tees old) =
     TransformFromFuncs (tees @ customized attrs keys)
       (Some (map (\<lambda>d. case attrs (d @ ''_transform'') of Some f \<Rightarrow> f | None \<Rightarrow> (\<lambda>x. x)) keys))"
  by (simp add: initialize_loop_eq)

lemma check_keys_Inr:
  assumes "check_keys f m keys = Inr m'"
  shows "(\<forall>k\<in>set keys. \<exists>rows. f k = Some rows \<and> m' = Some (length rows))
         \<and> (\<forall>n. m = Some n \<longrightarrow> m' = Some n) \<and> (keys = [] \<longrightarrow> m' = m)"
  using assms
proof (induction keys arbitrary: m)
  case Nil
  then show ?case by simp
next
  case (Cons key keys)
  from Cons.prems obtain rows where rows: "f key = Some rows"
    by (cases "f key") auto
  show ?case
  proof (cases m)
    case None
    with rows Cons.prems have "check_keys f (Some (length rows)) keys = Inr m'" by simp
    from Cons.IH[OF this] rows None show ?thesis by auto
  next
    case (Some n)
    with rows Cons.prems have n: "n = length rows" and "check_keys f m keys = Inr m'"
      by (auto split: if_splits)
    from Cons.IH[OF this(2)] rows Some n show ?thesis by auto
  qed
qed

lemma H5Dataset_init_Inr:
  assumes "H5Dataset_init h5py_File filename keys info_name tr attrs = Inr ds"
  shows "\<exists>f m. h5py_File filename = Inr f \<and> check_keys f None keys = Inr m
           \<and> H5Dataset.fid ds = f \<and> len ds = m \<and> data_keys ds = keys \<and> funcs ds = attrs
           \<and> H5Dataset.transform ds = initialize attrs keys
                (case tr of None \<Rightarrow> Chain [TransformFromFuncs [] None, ToTensor] | Some t \<Rightarrow> t)"
  using assms unfolding H5Dataset_init_def
  by (auto split: sum.splits option.splits)

lemma zip_map_apply_nth:
  assumes "k < length keys" "k < length item"
  shows "map (\<lambda>(tr, it). tr it) (zip (map g keys) item) ! k = g (keys ! k) (item ! k)"
  using assms by simp

lemma map2_id_take:
  "map (\<lambda>(tr, it). tr it) (zip (map (\<lambda>d. (\<lambda>x. x)) keys) item) = take (length keys) item"
proof (induction keys arbitrary: item)
  case Nil
  show ?case by simp
next
  case (Cons k keys)
  show ?case by (cases item) (simp_all add: Cons.IH)
qed

lemma no_custom_transforms:
  assumes "\<forall>d\<in>set keys. attrs (d @ ''_transform'') = None"
  shows "map (\<lambda>d. case attrs (d @ ''_transform'') of Some f \<Rightarrow> f | None \<Rightarrow> (\<lambda>x. x)) keys
           = map (\<lambda>d. (\<lambda>x. x)) keys"
  using assms by simp

lemma chain_default_call:
  assumes "\<forall>d\<in>set keys. attrs (d @ ''_transform'') = None"
  shows "call to_tensor (initialize attrs keys (Chain [TransformFromFuncs tees old, ToTensor])) item
           = Inr (map to_tensor (take (length keys) item))"
  by (simp add: initialize_loop_eq no_custom_transforms[OF assms] map2_id_take)

section \<open>The identity-by-field transform on a dataset\<close>

text \<open>
  Claim C2. Take a file-backed dataset whose transform is the identity-by-field transform,
  and an index \<open>i\<close> with \<open>0 \<le> i < length()\<close>. Then \<^verbatim>\<open>__getitem__\<close> returns a tuple with
  one position per field, and at every position: when the dataset has the attribute
  \<^verbatim>\<open><field>_transform\<close> with value \<open>f\<close>, the position holds \<open>f\<close> applied to the raw value
  \<^verbatim>\<open>fid[field][i]\<close>; when it has no such attribute, the position holds the raw value itself.
\<close>

theorem transform_from_funcs_item:
  assumes init: "H5Dataset_init h5py_File filename keys info_name
                   (Some (TransformFromFuncs tees old)) attrs = Inr ds"
    and n: "H5Dataset_len ds = Inr n"
    and i: "0 \<le> i" "i < int n"
  shows "\<exists>item. H5Dataset_getitem to_tensor ds i = Inr item \<and> length item = length keys \<and>
           (\<forall>k<length keys. \<exists>raw. H5Dataset_read (H5Dataset.fid ds) (keys ! k) i = Inr raw \<and>
              (case attrs (keys ! k @ ''_transform'') of
                 Some f \<Rightarrow> item ! k = f raw
               | None \<Rightarrow> item ! k = raw))"
proof -
  from H5Dataset_init_Inr[OF init] obtain f m where
    ck: "check_keys f None keys = Inr m" and fid: "H5Dataset.fid ds = f" and m: "len ds = m"
    and dk: "data_keys ds = keys"
    and tr: "H5Dataset.transform ds = initialize attrs keys (TransformFromFuncs tees old)"
    by auto
  from n m have mn: "m = Some n" by (simp add: H5Dataset_len_def split: option.splits)
  have "\<forall>d\<in>set keys. \<exists>r. H5Dataset_read f d i = Inr r"
  proof
    fix d assume "d \<in> set keys"
    with check_keys_Inr[OF ck] mn obtain rows where "f d = Some rows" "n = length rows" by auto
    with i show "\<exists>r. H5Dataset_read f d i = Inr r"
      by (simp add: H5Dataset_read_def getitem_def)
  qed
  then have "\<exists>rs. gather (H5Dataset_read f) keys i = Inr rs"
    by (rule gather_total)
  then obtain raws where raws: "gather (H5Dataset_read f) keys i = Inr raws"
    by blast
  note nth = gather_Inr_nth[OF raws]
  let ?g = "\<lambda>d. case attrs (d @ ''_transform'') of Some f \<Rightarrow> f | None \<Rightarrow> (\<lambda>x. x)"
  let ?item = "map (\<lambda>(tr, it). tr it) (zip (map ?g keys) raws)"
  have get: "H5Dataset_getitem to_tensor ds i = Inr ?item"
    by (simp add: H5Dataset_getitem_def fid dk raws tr initialize_TransformFromFuncs
          del: initialize.simps)
  have len: "length ?item = length keys" using nth(1) by simp
  have "\<exists>raw. H5Dataset_read (H5Dataset.fid ds) (keys ! k) i = Inr raw \<and>
              (case attrs (keys ! k @ ''_transform'') of
                 Some f \<Rightarrow> ?item ! k = f raw
               | None \<Rightarrow> ?item ! k = raw)" if k: "k < length keys" for k
  proof -
    have "?item ! k = ?g (keys ! k) (raws ! k)"
      using k nth(1) by (intro zip_map_apply_nth) simp_all
    with nth(2)[OF k] show ?thesis
      by (auto simp: fid split: option.splits)
  qed
  with get len show ?thesis by blast
qed

text \<open>
  The theorem at a file with the fields \<^verbatim>\<open>x\<close> and \<^verbatim>\<open>y\<close>, where only \<^verbatim>\<open>x_transform\<close>
  exists: the item at 1 is the successor of \<^verbatim>\<open>x[1]\<close> and \<^verbatim>\<open>y[1]\<close> as stored.
\<close>

theorem transform_from_funcs_item_witness:
  "H5Dataset_init (open_file [''train.h5'' \<mapsto> [''x'' \<mapsto> [1, 2, 3 :: nat], ''y'' \<mapsto> [10, 20, 30]]])
       ''train.h5'' [''x'', ''y''] None (Some (TransformFromFuncs [] None)) [''x_transform'' \<mapsto> Suc]
     = Inr \<lparr>fid = [''x'' \<mapsto> [1, 2, 3], ''y'' \<mapsto> [10, 20, 30]], len = Some 3,
            data_keys = [''x'', ''y''], info = None,
            transform = initialize [''x_transform'' \<mapsto> Suc] [''x'', ''y''] (TransformFromFuncs [] None),
            funcs = [''x_transform'' \<mapsto> Suc]\<rparr>
   \<and> H5Dataset_getitem id
         \<lparr>fid = [''x'' \<mapsto> [1, 2, 3 :: nat], ''y'' \<mapsto> [10, 20, 30]], len = Some 3,
            data_keys = [''x'', ''y''], info = None,
            transform = initialize [''x_transform'' \<mapsto> Suc] [''x'', ''y''] (TransformFromFuncs [] None),
            funcs = [''x_transform'' \<mapsto> Suc]\<rparr> 1 = Inr [3, 20]"
proof -
  let ?ds = "\<lparr>fid = [''x'' \<mapsto> [1, 2, 3 :: nat], ''y'' \<mapsto> [10, 20, 30]], len = Some 3,
            data_keys = [''x'', ''y''], info = None,
            transform = initialize [''x_transform'' \<mapsto> Suc] [''x'', ''y''] (TransformFromFuncs [] None),
            funcs = [''x_transform'' \<mapsto> Suc]\<rparr>"
  have h1: "H5Dataset_init (open_file [''train.h5'' \<mapsto> [''x'' \<mapsto> [1, 2, 3 :: nat], ''y'' \<mapsto> [10, 20, 30]]])
       ''train.h5'' [''x'', ''y''] None (Some (TransformFromFuncs [] None)) [''x_transform'' \<mapsto> Suc]
     = Inr ?ds"
    by (simp add: H5Dataset_init_def open_file_def)
  have h2: "H5Dataset_len ?ds = Inr 3" by (simp add: H5Dataset_len_def)
  have h3: "(0::int) \<le> 1" and h4: "(1::int) < int 3" by simp_all
  from transform_from_funcs_item[OF h1 h2 h3 h4, of id] h1 show ?thesis
    by (simp add: H5Dataset_getitem_def H5Dataset_read_def getitem_def)
qed

section \<open>The default chain against type coercion alone\<close>

text \<open>
  A file-backed dataset built with the default transform and one built with \<open>ToTensor\<close>
  return the same item, or raise the same error, at every index, when the dataset has no
  \<^verbatim>\<open>_transform\<close> attribute for any of its fields.
\<close>

lemma H5Dataset_default_transform_getitem:
  assumes none: "\<forall>d\<in>set keys. attrs (d @ ''_transform'') = None"
    and ds: "H5Dataset_init h5py_File filename keys info_name None attrs = Inr ds"
    and ds': "H5Dataset_init h5py_File filename keys info_name (Some ToTensor) attrs = Inr ds'"
  shows "H5Dataset_getitem to_tensor ds i = H5Dataset_getitem to_tensor ds' i"
proof -
  from H5Dataset_init_Inr[OF ds] H5Dataset_init_Inr[OF ds']
  have fid: "H5Dataset.fid ds' = H5Dataset.fid ds"
    and dk: "data_keys ds = keys" "data_keys ds' = keys"
    and tr: "H5Dataset.transform ds
               = initialize attrs keys (Chain [TransformFromFuncs [] None, ToTensor])"
    and tr': "H5Dataset.transform ds' = initialize attrs keys ToTensor"
    by auto
  show ?thesis
  proof (cases "gather (H5Dataset_read (H5Dataset.fid ds)) keys i")
    case (Inl e)
    then show ?thesis by (simp add: H5Dataset_getitem_def fid dk)
  next
    case (Inr raw)
    from gather_Inr_nth(1)[OF Inr] have len: "length raw = length keys" .
    have "call to_tensor (H5Dataset.transform ds) raw = Inr (map to_tensor (take (length keys) raw))"
      unfolding tr by (rule chain_default_call[OF none])
    also have "\<dots> = call to_tensor (H5Dataset.transform ds') raw"
      unfolding tr' using len by simp
    finally show ?thesis using Inr by (simp add: H5Dataset_getitem_def fid dk)
  qed
qed

text \<open>
  Claim C3. On a dataset with no \<^verbatim>\<open>_transform\<close> attribute for any of its fields, the
  chain of the identity-by-field transform and \<open>ToTensor\<close>, initialized against the dataset,
  returns what \<open>ToTensor\<close> alone returns, for every input tuple of the dataset: a tuple with
  one position per field, as \<^verbatim>\<open>__getitem__\<close> builds it.
\<close>

theorem chain_equals_to_tensor:
  assumes "\<forall>d\<in>set keys. attrs (d @ ''_transform'') = None"
    and "length item = length keys"
  shows "call to_tensor (initialize attrs keys (Chain [TransformFromFuncs tees old, ToTensor])) item
           = call to_tensor (initialize attrs keys ToTensor) item"
proof -
  have "call to_tensor (initialize attrs keys (Chain [TransformFromFuncs tees old, ToTensor])) item
          = Inr (map to_tensor (take (length keys) item))"
    by (rule chain_default_call[OF assms(1)])
  also have "\<dots> = call to_tensor (initialize attrs keys ToTensor) item"
    using assms(2) by simp
  finally show ?thesis .
qed

text \<open>
  The theorem at the fields \<^verbatim>\<open>a\<close> and \<^verbatim>\<open>b\<close> and a tuple of two positions, with the
  successor function for \<^verbatim>\<open>torch.from_numpy\<close>.
\<close>

theorem chain_equals_to_tensor_witness:
  "call Suc (initialize Map.empty [''a'', ''b''] (Chain [TransformFromFuncs [] None, ToTensor])) [1, 2]
     = call Suc (initialize Map.empty [''a'', ''b''] ToTensor) [1, 2]
   \<and> call Suc (initialize Map.empty [''a'', ''b''] ToTensor) [1, 2] = Inr [2, 3]"
proof -
  have h1: "\<forall>d\<in>set [''a'', ''b'']. (Map.empty :: string \<rightharpoonup> (nat \<Rightarrow> nat)) (d @ ''_transform'') = None"
    by simp
  have h2: "length [1, 2 :: nat] = length [''a'', ''b'']" by simp
  from chain_equals_to_tensor[OF h1 h2, of Suc "[]" None] show ?thesis by simp
qed

section \<open>Initializing the identity-by-field transform twice\<close>

text \<open>
  Claim C10. A second \<^verbatim>\<open>initialize\<close> against the same dataset leaves \<^verbatim>\<open>__call__\<close> as it
  was, since \<^verbatim>\<open>_transforms\<close> is rebuilt from the empty list, and appends the customized
  fields to \<^verbatim>\<open>transformees\<close> once more. Starting from a fresh transform, the list then holds
  every customized field twice and \<^verbatim>\<open>__repr__\<close> prints it so; when at least one field is
  customized the transform after the second call differs from the one after the first.
\<close>

theorem initialize_twice:
  fixes attrs :: "string \<rightharpoonup> ('v \<Rightarrow> 'v)"
  shows "call to_tensor (initialize attrs keys (initialize attrs keys (TransformFromFuncs tees old))) item
           = call to_tensor (initialize attrs keys (TransformFromFuncs tees old)) item
   \<and> transformees (initialize attrs keys (initialize attrs keys (TransformFromFuncs tees old)))
           = transformees (initialize attrs keys (TransformFromFuncs tees old)) @ customized attrs keys
   \<and> transformees (initialize attrs keys (initialize attrs keys (TransformFromFuncs [] None)))
           = customized attrs keys @ customized attrs keys
   \<and> repr (initialize attrs keys (initialize attrs keys (TransformFromFuncs [] None)))
           = ''TransformFromFuncs('' @ join '', '' (customized attrs keys @ customized attrs keys) @ '')''
   \<and> (customized attrs keys \<noteq> [] \<longrightarrow>
        initialize attrs keys (initialize attrs keys (TransformFromFuncs tees old))
          \<noteq> initialize attrs keys (TransformFromFuncs tees old))"
proof -
  let ?g = "\<lambda>d. case attrs (d @ ''_transform'') of Some f \<Rightarrow> f | None \<Rightarrow> (\<lambda>x. x)"
  let ?c = "customized attrs keys"
  have one: "initialize attrs keys (TransformFromFuncs tees old)
               = TransformFromFuncs (tees @ ?c) (Some (map ?g keys))" for tees old
    by (rule initialize_TransformFromFuncs)
  have two: "initialize attrs keys (initialize attrs keys (TransformFromFuncs tees old))
               = TransformFromFuncs (tees @ ?c @ ?c) (Some (map ?g keys))" for tees old
    unfolding one by simp
  show ?thesis
    unfolding two one by simp
qed

text \<open>
  The theorem at the fields \<^verbatim>\<open>a\<close> and \<^verbatim>\<open>b\<close>, with \<^verbatim>\<open>a_transform\<close> the successor function.
\<close>

theorem initialize_twice_witness:
  "call id (initialize [''a_transform'' \<mapsto> Suc] [''a'', ''b'']
        (initialize [''a_transform'' \<mapsto> Suc] [''a'', ''b''] (TransformFromFuncs [] None))) [1, 2]
      = Inr [2, 2]
   \<and> call id (initialize [''a_transform'' \<mapsto> Suc] [''a'', ''b''] (TransformFromFuncs [] None)) [1, 2]
      = Inr [2, 2]
   \<and> transformees (initialize [''a_transform'' \<mapsto> Suc] [''a'', ''b''] (TransformFromFuncs [] None))
      = [''a'']
   \<and> transformees (initialize [''a_transform'' \<mapsto> Suc] [''a'', ''b'']
        (initialize [''a_transform'' \<mapsto> Suc] [''a'', ''b''] (TransformFromFuncs [] None)))
      = [''a'', ''a'']
   \<and> repr (initialize [''a_transform'' \<mapsto> Suc] [''a'', ''b'']
        (initialize [''a_transform'' \<mapsto> Suc] [''a'', ''b''] (TransformFromFuncs [] None)))
      = ''TransformFromFuncs(a, a)''
   \<and> customized [''a_transform'' \<mapsto> Suc] [''a'', ''b''] \<noteq> []
   \<and> initialize [''a_transform'' \<mapsto> Suc] [''a'', ''b'']
        (initialize [''a_transform'' \<mapsto> Suc] [''a'', ''b''] (TransformFromFuncs [] None))
      \<noteq> initialize [''a_transform'' \<mapsto> Suc] [''a'', ''b''] (TransformFromFuncs [] (None :: (nat \<Rightarrow> nat) list option))"
  using initialize_twice[of id "[''a_transform'' \<mapsto> Suc]" "[''a'', ''b'']" "[]" None "[1, 2]"]
  by (simp add: customized_def)

section \<open>The conversion helper\<close>

text \<open>
  When \<^verbatim>\<open>Variable\<close> and \<^verbatim>\<open>cuda\<close> never raise, the generator with raising parameters is
  \<open>to_variable\<close>.
\<close>

lemma convert_total:
  "convert (\<lambda>e. Inr (mv e)) (\<lambda>e k. Inr (Variable e k)) kwargs ps
     = Inr (map (\<lambda>(f, e). if f then Variable (mv e) kwargs else Unconverted e) ps)"
  by (induction ps) auto

lemma convert_total_plain:
  "convert Inr (\<lambda>e k. Inr (Variable e k)) kwargs ps
     = Inr (map (\<lambda>(f, e). if f then Variable e kwargs else Unconverted e) ps)"
  by (induction ps) auto

lemma to_variable_raising_total:
  "to_variable_raising py_iter (\<lambda>e. Inr (to_cuda e)) (\<lambda>e k. Inr (Variable e k)) elems c flt kwargs
     = to_variable py_iter to_cuda elems c flt kwargs"
proof (induction elems arbitrary: flt)
  case Nil
  show ?case by simp
next
  case (Cons elem rest)
  let ?f = "case flt of None \<Rightarrow> infer_filter elem | Some f \<Rightarrow> f"
  have IH: "to_variable_raising py_iter (\<lambda>e. Inr (to_cuda e)) (\<lambda>e k. Inr (Variable e k)) rest c
              (Some ?f) kwargs = to_variable py_iter to_cuda rest c (Some ?f) kwargs"
    by (rule Cons.IH)
  show ?case
  proof (cases "case elem of Seq xs \<Rightarrow> Inr xs | NonSeq x \<Rightarrow> py_iter x")
    case (Inl e)
    then show ?thesis by simp
  next
    case (Inr es)
    obtain ys err where r: "to_variable py_iter to_cuda rest c (Some ?f) kwargs = (ys, err)"
      by (cases "to_variable py_iter to_cuda rest c (Some ?f) kwargs")
    with IH have r': "to_variable_raising py_iter (\<lambda>e. Inr (to_cuda e)) (\<lambda>e k. Inr (Variable e k))
                        rest c (Some ?f) kwargs = (ys, err)"
      by simp
    from Inr r r' show ?thesis
      by (cases c) (simp_all add: convert_total convert_total_plain)
  qed
qed

text \<open>
  Claim C6, as amended. On the sequence \<^verbatim>\<open>[(t1, x2), (t3, x4)]\<close> with \<^verbatim>\<open>cuda=False\<close> and the
  filter \<^verbatim>\<open>(True, False)\<close>, where \<open>t1\<close> and \<open>t3\<close> are tensors and \<open>x2\<close> and \<open>x4\<close> are any
  values (the numbers 2 and 4 for instance), the generator yields
  \<^verbatim>\<open>(Variable(t1, **kwargs), x2)\<close> and then \<^verbatim>\<open>(Variable(t3, **kwargs), x4)\<close>, and ends without
  an exception: \<^verbatim>\<open>cuda()\<close> is not applied and the second position of each tuple is left as
  it is.
\<close>

theorem to_variable_masked:
  "to_variable_raising py_iter torch_cuda torch_Variable
       [Seq [PyTensor t1, x2], Seq [PyTensor t3, x4]] False (Some [True, False]) kwargs
     = ([[Variable (PyTensor t1) kwargs, Unconverted x2],
         [Variable (PyTensor t3) kwargs, Unconverted x4]], None)"
  by (simp add: torch_Variable_def)

text \<open>
  The theorem at two tensors of dimension zero that hold 1 and 3, next to the numbers 2
  and 4.
\<close>

theorem to_variable_masked_witness:
  "to_variable_raising not_iterable torch_cuda torch_Variable
       [Seq [PyTensor (Tensor \<lparr>shape = [], flat = [1 :: int]\<rparr> CPU), PyInt 2],
        Seq [PyTensor (Tensor \<lparr>shape = [], flat = [3]\<rparr> CPU), PyInt 4]] False (Some [True, False]) ()
     = ([[Variable (PyTensor (Tensor \<lparr>shape = [], flat = [1]\<rparr> CPU)) (), Unconverted (PyInt 2)],
         [Variable (PyTensor (Tensor \<lparr>shape = [], flat = [3]\<rparr> CPU)) (), Unconverted (PyInt 4)]], None)"
  using to_variable_masked[of not_iterable "Tensor \<lparr>shape = [], flat = [1 :: int]\<rparr> CPU" "PyInt 2"
      "Tensor \<lparr>shape = [], flat = [3]\<rparr> CPU" "PyInt 4" "()"]
  by simp

text \<open>
  The claim as stated, on the numbers \<^verbatim>\<open>[(1, 2), (3, 4)]\<close>, fails: \<^verbatim>\<open>Variable(1, **kwargs)\<close>
  raises \<open>TypeError\<close> inside the first tuple, and the generator yields nothing.
\<close>

theorem to_variable_numbers_counterexample:
  "to_variable_raising not_iterable torch_cuda torch_Variable
       [Seq [PyInt 1, PyInt 2], Seq [PyInt 3, PyInt 4]] False (Some [True, False]) ()
     = ([], Some TypeError)"
  by (simp add: torch_Variable_def)

lemma zip_all_true:
  "map (\<lambda>(f, e). if f then g e else h e) (zip (replicate n True) es) = map g (take n es)"
proof (induction n arbitrary: es)
  case 0
  show ?case by simp
next
  case (Suc n)
  show ?case by (cases es) (simp_all add: Suc.IH)
qed

lemma to_variable_fixed_filter:
  "to_variable py_iter to_cuda (map Seq xss) c (Some (replicate n True)) kwargs
     = (map (\<lambda>es. map (\<lambda>e. Variable (if c then to_cuda e else e) kwargs) (take n es)) xss, None)"
proof (induction xss)
  case Nil
  show ?case by simp
next
  case (Cons xs xss)
  then show ?case
    by (cases c) (simp_all add: zip_all_true)
qed

text \<open>
  Claim C7, as amended. Without a filter, the all-true filter of the first element is
  inferred at the first element and is the filter of every later element. A later tuple
  whose arity differs from the length of that filter raises nothing: \<^verbatim>\<open>zip\<close> stops at the
  shorter of the two, so the yielded tuple holds the converted first
  \<open>min (arity, length of the filter)\<close> positions.
\<close>

theorem to_variable_infers_once:
  "to_variable py_iter to_cuda (elem # rest) c None kwargs
     = to_variable py_iter to_cuda (elem # rest) c (Some (infer_filter elem)) kwargs
   \<and> to_variable py_iter to_cuda (Seq xs # map Seq xss) c None kwargs
     = (map (\<lambda>es. map (\<lambda>e. Variable (if c then to_cuda e else e) kwargs) (take (length xs) es))
          (xs # xss), None)"
proof -
  have a: "to_variable py_iter to_cuda (elem # rest) c None kwargs
     = to_variable py_iter to_cuda (elem # rest) c (Some (infer_filter elem)) kwargs"
    by simp
  have "to_variable py_iter to_cuda (Seq xs # map Seq xss) c None kwargs
     = to_variable py_iter to_cuda (map Seq (xs # xss)) c (Some (replicate (length xs) True)) kwargs"
    by (simp add: infer_filter_def)
  also have "\<dots> = (map (\<lambda>es. map (\<lambda>e. Variable (if c then to_cuda e else e) kwargs) (take (length xs) es))
          (xs # xss), None)"
    by (rule to_variable_fixed_filter)
  finally show ?thesis using a by blast
qed

text \<open>
  The theorem on three tuples of arity two, one and three.
\<close>

theorem to_variable_infers_once_witness:
  "to_variable not_iterable id [Seq [1, 2 :: int], Seq [3], Seq [4, 5, 6]] False None ()
     = ([[Variable 1 (), Variable 2 ()], [Variable 3 ()], [Variable 4 (), Variable 5 ()]], None)"
  using to_variable_infers_once[of not_iterable id "Seq [1, 2 :: int]" "[]" False "()" "[1, 2]" "[[3], [4, 5, 6]]"]
  by simp

text \<open>
  The claim as stated fails: after a first tuple of arity two, a tuple of arity one is
  converted and yielded, and the generator ends with no exception; likewise a tuple of arity
  two after a first tuple of arity one.
\<close>

theorem to_variable_arity_counterexample:
  "to_variable not_iterable id [Seq [1, 2 :: int], Seq [3]] False None ()
     = ([[Variable 1 (), Variable 2 ()], [Variable 3 ()]], None)
   \<and> snd (to_variable not_iterable id [Seq [1, 2 :: int], Seq [3]] False None ()) \<noteq> Some IndexError
   \<and> to_variable not_iterable id [Seq [1 :: int], Seq [2, 3]] False None ()
     = ([[Variable 1 ()], [Variable 2 ()]], None)"
  by (simp add: infer_filter_def)

section \<open>Lengths of the in-memory adapters\<close>

lemma getitem_0: "getitem xs 0 = (case xs of [] \<Rightarrow> Inl IndexError | x # _ \<Rightarrow> Inr x)"
  by (cases xs) (simp_all add: getitem_def)

lemma check_first_dimension_Inr:
  assumes "check_first_dimension d0 ds = Inr u"
  shows "\<forall>d\<in>set ds. \<exists>n rest. shape d = n # rest \<and> getitem (shape d0) 0 = Inr n"
  using assms
proof (induction ds)
  case Nil
  show ?case by simp
next
  case (Cons d ds)
  from Cons.prems obtain n where n: "getitem (shape d) 0 = Inr n"
    by (cases "getitem (shape d) 0") auto
  with Cons.prems obtain n0 where n0: "getitem (shape d0) 0 = Inr n0"
    by (cases "getitem (shape d0) 0") auto
  with n Cons.prems have eq: "n = n0" and rest: "check_first_dimension d0 ds = Inr u"
    by (auto split: if_splits)
  from n obtain r where "shape d = n # r"
    by (auto simp: getitem_0 split: list.splits)
  with eq n0 Cons.IH[OF rest] show ?case by simp
qed

text \<open>
  Claim C8. On every constructed \<open>NumpyDataset\<close>, \<^verbatim>\<open>__len__\<close> raises: it calls the
  \<^verbatim>\<open>shape\<close> tuple of the first array (or finds no first array), and never returns the
  first dimension that all the arrays share.
\<close>

theorem NumpyDataset_len_raises:
  assumes "NumpyDataset_init ds = Inr self"
  shows "NumpyDataset_len self = (if ds = [] then Inl IndexError else Inl TypeError)
         \<and> (\<forall>n. NumpyDataset_len self \<noteq> Inr n)
         \<and> (ds \<noteq> [] \<longrightarrow> (\<exists>n. \<forall>d\<in>set ds. getitem (shape d) 0 = Inr n))"
proof -
  from assms have self: "NumpyDataset.data self = ds"
    by (auto simp: NumpyDataset_init_def split: sum.splits)
  have len: "NumpyDataset_len self = (if ds = [] then Inl IndexError else Inl TypeError)"
    by (cases ds) (simp_all add: NumpyDataset_len_def self getitem_0 call_tuple_def)
  have "\<exists>n. \<forall>d\<in>set ds. getitem (shape d) 0 = Inr n" if "ds \<noteq> []"
  proof -
    from that obtain d0 ds' where ds: "ds = d0 # ds'" by (cases ds) auto
    with assms obtain u where "check_first_dimension d0 ds = Inr u"
      by (auto simp: NumpyDataset_init_def split: sum.splits)
    from check_first_dimension_Inr[OF this]
    have *: "\<forall>d\<in>set ds. \<exists>n rest. shape d = n # rest \<and> getitem (shape d0) 0 = Inr n" .
    then obtain n0 where "getitem (shape d0) 0 = Inr n0" using ds by auto
    with * have "\<forall>d\<in>set ds. getitem (shape d) 0 = Inr n0"
      by (auto simp: getitem_0)
    then show ?thesis ..
  qed
  with len show ?thesis by simp
qed

text \<open>
  The theorem at two arrays of first dimension two.
\<close>

theorem NumpyDataset_len_raises_witness:
  "NumpyDataset_init [\<lparr>shape = [2, 2], flat = [1, 2, 3, 4 :: int]\<rparr>, \<lparr>shape = [2], flat = [5, 6]\<rparr>]
     = Inr \<lparr>NumpyDataset.data = [\<lparr>shape = [2, 2], flat = [1, 2, 3, 4]\<rparr>, \<lparr>shape = [2], flat = [5, 6]\<rparr>]\<rparr>
   \<and> NumpyDataset_len \<lparr>NumpyDataset.data = [\<lparr>shape = [2, 2], flat = [1, 2, 3, 4 :: int]\<rparr>, \<lparr>shape = [2], flat = [5, 6]\<rparr>]\<rparr>
     = Inl TypeError"
proof -
  have h: "NumpyDataset_init [\<lparr>shape = [2, 2], flat = [1, 2, 3, 4 :: int]\<rparr>, \<lparr>shape = [2], flat = [5, 6]\<rparr>]
     = Inr \<lparr>NumpyDataset.data = [\<lparr>shape = [2, 2], flat = [1, 2, 3, 4]\<rparr>, \<lparr>shape = [2], flat = [5, 6]\<rparr>]\<rparr>"
    by (simp add: NumpyDataset_init_def getitem_0)
  from NumpyDataset_len_raises[OF h] h show ?thesis by simp
qed

section \<open>MultiTensorDataset: variables and items\<close>

lemma MultiTensorDataset_init_Inr:
  assumes "MultiTensorDataset_init float32 ds tr = Inr self"
  shows "MultiTensorDataset.data self = map (\<lambda>d. from_numpy (astype float32 d)) ds"
    and "MultiTensorDataset.transform self = (case tr of None \<Rightarrow> (\<lambda>x. x) | Some t \<Rightarrow> t)"
    and "ds \<noteq> [] \<Longrightarrow> \<exists>u. check_first_dimension (hd ds) ds = Inr u"
  using assms
  by (auto simp: MultiTensorDataset_init_def split: sum.splits list.splits)

text \<open>
  Claim C9. On every \<open>MultiTensorDataset\<close>, in whatever state (as constructed, or after
  \<^verbatim>\<open>cuda_\<close> or \<^verbatim>\<open>cpu_\<close>), \<^verbatim>\<open>as_variables(**kwargs)\<close> returns one \<open>Variable\<close> per stored
  field, each around the stored tensor of that field with the given options, and leaves the
  adapter as it was.
\<close>

theorem as_variables_frame:
  assumes "MultiTensorDataset_as_variables self kwargs = (vs, self')"
  shows "self' = self \<and> length vs = length (MultiTensorDataset.data self)
         \<and> (\<forall>k<length (MultiTensorDataset.data self).
               vs ! k = Variable (MultiTensorDataset.data self ! k) kwargs)"
  using assms by (auto simp: MultiTensorDataset_as_variables_def)

text \<open>
  The theorem at an adapter of two fields that \<^verbatim>\<open>cuda_\<close> has moved to the accelerator.
\<close>

theorem as_variables_frame_witness:
  "snd (MultiTensorDataset_cuda
         \<lparr>MultiTensorDataset.data =
            [Tensor \<lparr>shape = [2], flat = [5, 6 :: int]\<rparr> CPU, Tensor \<lparr>shape = [1], flat = [7]\<rparr> CPU],
          MultiTensorDataset.transform = (\<lambda>x. x)\<rparr>)
     = \<lparr>MultiTensorDataset.data =
            [Tensor \<lparr>shape = [2], flat = [5, 6]\<rparr> CUDA, Tensor \<lparr>shape = [1], flat = [7]\<rparr> CUDA],
          MultiTensorDataset.transform = (\<lambda>x. x)\<rparr>
   \<and> MultiTensorDataset_as_variables
         \<lparr>MultiTensorDataset.data =
            [Tensor \<lparr>shape = [2], flat = [5, 6 :: int]\<rparr> CUDA, Tensor \<lparr>shape = [1], flat = [7]\<rparr> CUDA],
          MultiTensorDataset.transform = (\<lambda>x. x)\<rparr> True
     = ([Variable (Tensor \<lparr>shape = [2], flat = [5, 6]\<rparr> CUDA) True,
         Variable (Tensor \<lparr>shape = [1], flat = [7]\<rparr> CUDA) True],
        \<lparr>MultiTensorDataset.data =
            [Tensor \<lparr>shape = [2], flat = [5, 6]\<rparr> CUDA, Tensor \<lparr>shape = [1], flat = [7]\<rparr> CUDA],
         MultiTensorDataset.transform = (\<lambda>x. x)\<rparr>)"
proof -
  have h: "MultiTensorDataset_as_variables
         \<lparr>MultiTensorDataset.data =
            [Tensor \<lparr>shape = [2], flat = [5, 6 :: int]\<rparr> CUDA, Tensor \<lparr>shape = [1], flat = [7]\<rparr> CUDA],
          MultiTensorDataset.transform = (\<lambda>x. x)\<rparr> True
     = ([Variable (Tensor \<lparr>shape = [2], flat = [5, 6]\<rparr> CUDA) True,
         Variable (Tensor \<lparr>shape = [1], flat = [7]\<rparr> CUDA) True],
        \<lparr>MultiTensorDataset.data =
            [Tensor \<lparr>shape = [2], flat = [5, 6]\<rparr> CUDA, Tensor \<lparr>shape = [1], flat = [7]\<rparr> CUDA],
         MultiTensorDataset.transform = (\<lambda>x. x)\<rparr>)"
    by (simp add: MultiTensorDataset_as_variables_def)
  from as_variables_frame[OF h] h show ?thesis
    by (simp add: MultiTensorDataset_cuda_def cuda_def)
qed

lemma ndarray_getitem_astype:
  "ndarray_getitem (astype c d) i =
     (case ndarray_getitem d i of Inl e \<Rightarrow> Inl e | Inr r \<Rightarrow> Inr (astype c r))"
  by (simp add: ndarray_getitem_def astype_def take_map drop_map split: list.splits sum.splits)

lemma ndarray_getitem_valid:
  assumes "shape d = n # rest" "0 \<le> i" "i < int n"
  shows "\<exists>row. ndarray_getitem d i = Inr row"
  using assms by (simp add: ndarray_getitem_def getitem_def)

lemma tensor_getitem_from_numpy:
  assumes "ndarray_getitem d i = Inr row"
  shows "tensor_getitem (from_numpy (astype c d)) i = Inr (from_numpy (astype c row))"
  using assms by (simp add: tensor_getitem_def from_numpy_def ndarray_getitem_astype)

text \<open>
  Claim C4. On a \<open>MultiTensorDataset\<close> constructed without a transform, for every index
  \<open>i\<close> with \<open>0 \<le> i < length()\<close>, \<^verbatim>\<open>__getitem__\<close> returns a tuple with one position per
  array, and each position is the tensor of the \<^verbatim>\<open>float32\<close> cast of the slice \<^verbatim>\<open>d[i]\<close> of
  the raw array.
\<close>

theorem coerced_item_roundtrip:
  assumes init: "MultiTensorDataset_init float32 ds None = Inr self"
    and len: "MultiTensorDataset_len self = Inr n"
    and i: "0 \<le> i" "i < int n"
  shows "\<exists>item. MultiTensorDataset_getitem self i = Inr item \<and> length item = length ds \<and>
           (\<forall>k<length ds. \<exists>row. ndarray_getitem (ds ! k) i = Inr row \<and>
              item ! k = from_numpy (astype float32 row))"
proof -
  note self = MultiTensorDataset_init_Inr[OF init]
  let ?g = "\<lambda>d. from_numpy (astype float32 d)"
  from len self(1) obtain d0 ds' where ds: "ds = d0 # ds'"
    by (cases ds) (auto simp: MultiTensorDataset_len_def getitem_0)
  with len self(1) have n0: "getitem (shape d0) 0 = Inr n"
    by (simp add: MultiTensorDataset_len_def getitem_0 size0_def from_numpy_def astype_def)
  from self(3) ds obtain u where "check_first_dimension d0 ds = Inr u" by auto
  from check_first_dimension_Inr[OF this] n0
  have shapes: "\<forall>d\<in>set ds. \<exists>rest. shape d = n # rest" by auto
  have rows: "\<exists>row. ndarray_getitem d i = Inr row" if "d \<in> set ds" for d
    using shapes that i ndarray_getitem_valid by blast
  have "\<forall>t\<in>set (map ?g ds). \<exists>r. tensor_getitem t i = Inr r"
    using rows tensor_getitem_from_numpy by fastforce
  then have "\<exists>rs. gather tensor_getitem (map ?g ds) i = Inr rs"
    by (rule gather_total)
  then obtain ret where ret: "gather tensor_getitem (map ?g ds) i = Inr ret" by blast
  note nth = gather_Inr_nth[OF ret]
  have get: "MultiTensorDataset_getitem self i = Inr ret"
    by (simp add: MultiTensorDataset_getitem_def self(1,2) ret)
  have "\<exists>row. ndarray_getitem (ds ! k) i = Inr row \<and> ret ! k = from_numpy (astype float32 row)"
    if k: "k < length ds" for k
  proof -
    from k rows obtain row where row: "ndarray_getitem (ds ! k) i = Inr row"
      using nth_mem by blast
    from nth(2)[of k] k have "tensor_getitem (?g (ds ! k)) i = Inr (ret ! k)" by simp
    with tensor_getitem_from_numpy[OF row, of float32] have "ret ! k = from_numpy (astype float32 row)"
      by simp
    with row show ?thesis by blast
  qed
  with get nth(1) show ?thesis by simp
qed

text \<open>
  The theorem at a 2x2 array and a vector of two elements, read at index 1.
\<close>

theorem coerced_item_roundtrip_witness:
  "MultiTensorDataset_init int
       [\<lparr>shape = [2, 2], flat = [1, 2, 3, 4 :: nat]\<rparr>, \<lparr>shape = [2], flat = [5, 6]\<rparr>] None
     = Inr \<lparr>MultiTensorDataset.data =
              [Tensor \<lparr>shape = [2, 2], flat = [1, 2, 3, 4]\<rparr> CPU, Tensor \<lparr>shape = [2], flat = [5, 6]\<rparr> CPU],
            MultiTensorDataset.transform = (\<lambda>x. x)\<rparr>
   \<and> MultiTensorDataset_len
        \<lparr>MultiTensorDataset.data =
              [Tensor \<lparr>shape = [2, 2], flat = [1, 2, 3, 4 :: int]\<rparr> CPU, Tensor \<lparr>shape = [2], flat = [5, 6]\<rparr> CPU],
            MultiTensorDataset.transform = (\<lambda>x. x)\<rparr> = Inr 2
   \<and> MultiTensorDataset_getitem
        \<lparr>MultiTensorDataset.data =
              [Tensor \<lparr>shape = [2, 2], flat = [1, 2, 3, 4 :: int]\<rparr> CPU, Tensor \<lparr>shape = [2], flat = [5, 6]\<rparr> CPU],
            MultiTensorDataset.transform = (\<lambda>x. x)\<rparr> 1
     = Inr [Tensor \<lparr>shape = [2], flat = [3, 4]\<rparr> CPU, Tensor \<lparr>shape = [], flat = [6]\<rparr> CPU]"
proof -
  let ?self = "\<lparr>MultiTensorDataset.data =
              [Tensor \<lparr>shape = [2, 2], flat = [1, 2, 3, 4 :: int]\<rparr> CPU, Tensor \<lparr>shape = [2], flat = [5, 6]\<rparr> CPU],
            MultiTensorDataset.transform = (\<lambda>x. x)\<rparr>"
  have h1: "MultiTensorDataset_init int
       [\<lparr>shape = [2, 2], flat = [1, 2, 3, 4 :: nat]\<rparr>, \<lparr>shape = [2], flat = [5, 6]\<rparr>] None = Inr ?self"
    by (simp add: MultiTensorDataset_init_def getitem_0 from_numpy_def astype_def)
  have h2: "MultiTensorDataset_len ?self = Inr 2"
    by (simp add: MultiTensorDataset_len_def getitem_0 size0_def)
  have h3: "(0::int) \<le> 1" and h4: "(1::int) < int 2" by simp_all
  from coerced_item_roundtrip[OF h1 h2 h3 h4] h1 h2 show ?thesis
    by (simp add: MultiTensorDataset_getitem_def tensor_getitem_def ndarray_getitem_def getitem_def)
qed

section \<open>Reading at the reported length\<close>

text \<open>
  Where \<^verbatim>\<open>__len__\<close> returns the first dimension that the constructor has checked, reading
  at that index raises: so it is for \<open>H5Dataset\<close> and \<open>MultiTensorDataset\<close>.
\<close>

lemma getitem_at_length: "getitem xs (int (length xs)) = Inl IndexError"
  by (simp add: getitem_def)

lemma H5Dataset_getitem_at_len:
  assumes init: "H5Dataset_init h5py_File filename keys info_name tr attrs = Inr ds"
    and len: "H5Dataset_len ds = Inr n"
  shows "H5Dataset_getitem to_tensor ds (int n) = Inl IndexError"
proof -
  from H5Dataset_init_Inr[OF init] obtain f m where
    ck: "check_keys f None keys = Inr m" and fid: "H5Dataset.fid ds = f" and m: "len ds = m"
    and dk: "data_keys ds = keys"
    by auto
  from len m have mn: "m = Some n" by (simp add: H5Dataset_len_def split: option.splits)
  with check_keys_Inr[OF ck] obtain k0 ks where keys: "keys = k0 # ks"
    by (cases keys) auto
  with check_keys_Inr[OF ck] mn obtain rows where "f k0 = Some rows" "n = length rows" by auto
  then have "H5Dataset_read f k0 (int n) = Inl IndexError"
    by (simp add: H5Dataset_read_def getitem_at_length)
  then show ?thesis
    by (simp add: H5Dataset_getitem_def fid dk keys)
qed

lemma MultiTensorDataset_getitem_at_len:
  assumes init: "MultiTensorDataset_init float32 ds tr = Inr self"
    and len: "MultiTensorDataset_len self = Inr n"
  shows "MultiTensorDataset_getitem self (int n) = Inl IndexError"
proof -
  note self = MultiTensorDataset_init_Inr[OF init]
  from len self(1) obtain d0 ds' where ds: "ds = d0 # ds'"
    by (cases ds) (auto simp: MultiTensorDataset_len_def getitem_0)
  with len self(1) have "getitem (shape d0) 0 = Inr n"
    by (simp add: MultiTensorDataset_len_def getitem_0 size0_def from_numpy_def astype_def)
  then obtain rest where "shape d0 = n # rest"
    by (auto simp: getitem_0 split: list.splits)
  then have "tensor_getitem (from_numpy (astype float32 d0)) (int n) = Inl IndexError"
    using getitem_at_length[of "[0..<n]"]
    by (simp add: tensor_getitem_def from_numpy_def astype_def ndarray_getitem_def)
  then show ?thesis
    by (simp add: MultiTensorDataset_getitem_def self(1) ds)
qed

text \<open>
  Claim C5. The claim asks that \<^verbatim>\<open>__getitem__\<close> at the index \<^verbatim>\<open>len(dataset)\<close> raises. On
  the \<open>ListDataset\<close> of the sequences \<^verbatim>\<open>[1, 2, 3]\<close> and \<^verbatim>\<open>[9, 8, 7]\<close>, \<^verbatim>\<open>__len__\<close> returns
  the number of sequences, 2, and \<^verbatim>\<open>__getitem__(2)\<close> returns \<^verbatim>\<open>(3, 7)\<close>.
\<close>

theorem ListDataset_getitem_at_len:
  "ListDataset_init [[1, 2, 3], [9, 8, 7 :: int]] None
     = Inr \<lparr>ListDataset.transform = None, ListDataset.data = [[1, 2, 3], [9, 8, 7]]\<rparr>
   \<and> ListDataset_len \<lparr>ListDataset.transform = None, ListDataset.data = [[1, 2, 3], [9, 8, 7 :: int]]\<rparr>
     = Inr 2
   \<and> ListDataset_getitem \<lparr>ListDataset.transform = None, ListDataset.data = [[1, 2, 3], [9, 8, 7 :: int]]\<rparr> 2
     = Inr [3, 7]"
  by (simp add: ListDataset_init_def ListDataset_len_def ListDataset_getitem_def getitem_def)

section \<open>Construction from fields of different lengths\<close>

lemma check_keys_mismatch:
  assumes "\<forall>k\<in>set keys. f k = Some (rows k)"
    and "\<exists>k\<in>set keys. length (rows k) \<noteq> n"
  shows "check_keys f (Some n) keys = Inl (AssertionError ''Length of datasets do not match'')"
  using assms
proof (induction keys)
  case Nil
  then show ?case by simp
next
  case (Cons key keys)
  show ?case
  proof (cases "length (rows key) = n")
    case True
    with Cons.prems have "\<exists>k\<in>set keys. length (rows k) \<noteq> n" by auto
    with Cons.IH Cons.prems(1) True show ?thesis by simp
  next
    case False
    with Cons.prems(1) show ?thesis by simp
  qed
qed

lemma check_keys_mismatch_None:
  assumes "\<forall>k\<in>set keys. f k = Some (rows k)"
    and "\<exists>k\<in>set keys. length (rows k) \<noteq> length (rows (hd keys))"
  shows "check_keys f None keys = Inl (AssertionError ''Length of datasets do not match'')"
proof (cases keys)
  case Nil
  with assms(2) show ?thesis by simp
next
  case (Cons k0 ks)
  with assms have all: "\<forall>k\<in>set ks. f k = Some (rows k)"
    and ex: "\<exists>k\<in>set ks. length (rows k) \<noteq> length (rows k0)" and k0: "f k0 = Some (rows k0)"
    by auto
  from check_keys_mismatch[OF all ex] k0 Cons show ?thesis by simp
qed

lemma check_keys_missing:
  assumes "\<forall>k'\<in>set ks. \<exists>r. f k' = Some r \<and> length r = n"
    and "f k = None"
    and "m = None \<or> m = Some n"
  shows "check_keys f m (ks @ k # rest) = Inl (AssertionError (''Could not find '' @ k @ '' in file''))"
  using assms
proof (induction ks arbitrary: m)
  case Nil
  then show ?case by simp
next
  case (Cons k' ks)
  from Cons.prems(1) obtain r where r: "f k' = Some r" "length r = n" by auto
  have rest: "check_keys f (Some n) (ks @ k # rest)
                = Inl (AssertionError (''Could not find '' @ k @ '' in file''))"
    using Cons.IH[of "Some n"] Cons.prems by simp
  from Cons.prems(3) r rest show ?case by auto
qed

lemma check_first_dimension_mismatch:
  assumes "\<forall>d\<in>set ds. shape d \<noteq> []" and "shape d0 \<noteq> []"
    and "\<exists>d\<in>set ds. hd (shape d) \<noteq> hd (shape d0)"
  shows "check_first_dimension d0 ds = Inl (AssertionError ''datasets must have same first dimension'')"
  using assms
proof (induction ds)
  case Nil
  then show ?case by simp
next
  case (Cons d ds)
  from Cons.prems obtain n r n0 r0 where s: "shape d = n # r" "shape d0 = n0 # r0"
    by (cases "shape d"; cases "shape d0") auto
  show ?case
  proof (cases "n = n0")
    case True
    with s Cons.prems have "\<exists>d\<in>set ds. hd (shape d) \<noteq> hd (shape d0)" by auto
    with Cons.IH Cons.prems s True show ?thesis by (simp add: getitem_0)
  next
    case False
    with s show ?thesis by (simp add: getitem_0)
  qed
qed

lemma check_len_mismatch:
  assumes "\<exists>d\<in>set ds. length d \<noteq> length d0"
  shows "check_len d0 ds = Inl (AssertionError ''datasets must have same first dimension'')"
  using assms by (induction ds) auto

lemma sublist_message: "sublist k (''Could not find '' @ k @ '' in file'')"
  unfolding sublist_def by blast

text \<open>
  Claim C1, as amended. Construction from fields whose first dimensions are not all equal
  fails with \<open>AssertionError\<close> in each of the four adapters: \<open>H5Dataset\<close> when every key is
  in the file, the two array adapters when every array has a first dimension, and
  \<open>ListDataset\<close>. In \<open>H5Dataset\<close> a key that is missing from the file, after keys that are
  present with one common length, fails with a message that contains the key; the message
  for a length mismatch is the fixed text \<^verbatim>\<open>Length of datasets do not match\<close>.
\<close>

theorem mismatched_fields_fail:
  "(h5py_File filename = Inr f \<and> (\<forall>k\<in>set keys. f k = Some (rows k))
      \<and> (\<exists>k\<in>set keys. length (rows k) \<noteq> length (rows (hd keys)))
     \<longrightarrow> H5Dataset_init h5py_File filename keys info_name tr attrs
           = Inl (AssertionError ''Length of datasets do not match''))
   \<and> (h5py_File filename = Inr f \<and> (\<forall>k'\<in>set ks. \<exists>r. f k' = Some r \<and> length r = n) \<and> f k = None
     \<longrightarrow> H5Dataset_init h5py_File filename (ks @ k # rest) info_name tr attrs
           = Inl (AssertionError (''Could not find '' @ k @ '' in file''))
         \<and> sublist k (''Could not find '' @ k @ '' in file''))
   \<and> ((\<forall>d\<in>set ds. shape d \<noteq> []) \<and> (\<exists>d\<in>set ds. hd (shape d) \<noteq> hd (shape (hd ds)))
     \<longrightarrow> MultiTensorDataset_init float32 ds mtr
           = Inl (AssertionError ''datasets must have same first dimension'')
         \<and> NumpyDataset_init ds
           = Inl (AssertionError ''datasets must have same first dimension''))
   \<and> ((\<exists>d\<in>set ls. length d \<noteq> length (hd ls))
     \<longrightarrow> ListDataset_init ls ltr
           = Inl (AssertionError ''datasets must have same first dimension''))"
proof (intro conjI impI)
  assume a: "h5py_File filename = Inr f \<and> (\<forall>k\<in>set keys. f k = Some (rows k))
      \<and> (\<exists>k\<in>set keys. length (rows k) \<noteq> length (rows (hd keys)))"
  then have "check_keys f None keys = Inl (AssertionError ''Length of datasets do not match'')"
    using check_keys_mismatch_None[of keys f rows] by blast
  with a show "H5Dataset_init h5py_File filename keys info_name tr attrs
           = Inl (AssertionError ''Length of datasets do not match'')"
    by (simp add: H5Dataset_init_def)
next
  assume a: "h5py_File filename = Inr f \<and> (\<forall>k'\<in>set ks. \<exists>r. f k' = Some r \<and> length r = n) \<and> f k = None"
  then have "check_keys f None (ks @ k # rest)
               = Inl (AssertionError (''Could not find '' @ k @ '' in file''))"
    using check_keys_missing[of ks f n k None rest] by blast
  with a show "H5Dataset_init h5py_File filename (ks @ k # rest) info_name tr attrs
           = Inl (AssertionError (''Could not find '' @ k @ '' in file''))"
    by (simp add: H5Dataset_init_def)
next
  show "sublist k (''Could not find '' @ k @ '' in file'')" by (rule sublist_message)
next
  assume a: "(\<forall>d\<in>set ds. shape d \<noteq> []) \<and> (\<exists>d\<in>set ds. hd (shape d) \<noteq> hd (shape (hd ds)))"
  then obtain d0 ds' where ds: "ds = d0 # ds'" by (cases ds) auto
  with a have "check_first_dimension d0 ds
                 = Inl (AssertionError ''datasets must have same first dimension'')"
    using check_first_dimension_mismatch[of ds d0] by simp
  with ds show "MultiTensorDataset_init float32 ds mtr
           = Inl (AssertionError ''datasets must have same first dimension'')"
    by (simp add: MultiTensorDataset_init_def)
next
  assume a: "(\<forall>d\<in>set ds. shape d \<noteq> []) \<and> (\<exists>d\<in>set ds. hd (shape d) \<noteq> hd (shape (hd ds)))"
  then obtain d0 ds' where ds: "ds = d0 # ds'" by (cases ds) auto
  with a have "check_first_dimension d0 ds
                 = Inl (AssertionError ''datasets must have same first dimension'')"
    using check_first_dimension_mismatch[of ds d0] by simp
  with ds show "NumpyDataset_init ds
           = Inl (AssertionError ''datasets must have same first dimension'')"
    by (simp add: NumpyDataset_init_def)
next
  assume a: "\<exists>d\<in>set ls. length d \<noteq> length (hd ls)"
  then obtain d0 ls' where ls: "ls = d0 # ls'" by (cases ls) auto
  with a have "check_len d0 ls = Inl (AssertionError ''datasets must have same first dimension'')"
    using check_len_mismatch[of ls d0] by simp
  with ls show "ListDataset_init ls ltr
           = Inl (AssertionError ''datasets must have same first dimension'')"
    by (simp add: ListDataset_init_def)
qed

text \<open>
  The theorem at a file whose two datasets have lengths two and one, at a file without the
  second key, at arrays of first dimension two and three, and at lists of length three and
  two.
\<close>

theorem mismatched_fields_fail_witness:
  "H5Dataset_init (open_file [''train.h5'' \<mapsto> [''images'' \<mapsto> [1, 2 :: nat], ''labels'' \<mapsto> [7]]])
       ''train.h5'' [''images'', ''labels''] None None Map.empty
     = Inl (AssertionError ''Length of datasets do not match'')
   \<and> H5Dataset_init (open_file [''train.h5'' \<mapsto> [''images'' \<mapsto> [1, 2 :: nat]]])
       ''train.h5'' [''images'', ''labels''] None None Map.empty
     = Inl (AssertionError ''Could not find labels in file'')
   \<and> sublist ''labels'' ''Could not find labels in file''
   \<and> MultiTensorDataset_init int
       [\<lparr>shape = [2], flat = [1, 2 :: nat]\<rparr>, \<lparr>shape = [3], flat = [4, 5, 6]\<rparr>] None
     = Inl (AssertionError ''datasets must have same first dimension'')
   \<and> NumpyDataset_init [\<lparr>shape = [2], flat = [1, 2 :: nat]\<rparr>, \<lparr>shape = [3], flat = [4, 5, 6]\<rparr>]
     = Inl (AssertionError ''datasets must have same first dimension'')
   \<and> ListDataset_init [[1, 2, 3], [9, 8 :: nat]] None
     = Inl (AssertionError ''datasets must have same first dimension'')"
proof -
  let ?fs1 = "[''train.h5'' \<mapsto> [''images'' \<mapsto> [1, 2 :: nat], ''labels'' \<mapsto> [7]]]"
  let ?f1 = "[''images'' \<mapsto> [1, 2 :: nat], ''labels'' \<mapsto> [7]]"
  let ?rows = "\<lambda>k. if k = ''images'' then [1, 2 :: nat] else [7]"
  let ?fs2 = "[''train.h5'' \<mapsto> [''images'' \<mapsto> [1, 2 :: nat]]]"
  let ?f2 = "[''images'' \<mapsto> [1, 2 :: nat]]"
  let ?ds = "[\<lparr>shape = [2], flat = [1, 2 :: nat]\<rparr>, \<lparr>shape = [3], flat = [4, 5, 6]\<rparr>]"
  have a: "open_file ?fs1 ''train.h5'' = Inr ?f1 \<and> (\<forall>k\<in>set [''images'', ''labels'']. ?f1 k = Some (?rows k))
      \<and> (\<exists>k\<in>set [''images'', ''labels'']. length (?rows k) \<noteq> length (?rows (hd [''images'', ''labels''])))"
    by (simp add: open_file_def)
  have b: "open_file ?fs2 ''train.h5'' = Inr ?f2
      \<and> (\<forall>k'\<in>set [''images'']. \<exists>r. ?f2 k' = Some r \<and> length r = 2) \<and> ?f2 ''labels'' = None"
    by (simp add: open_file_def)
  have c: "(\<forall>d\<in>set ?ds. shape d \<noteq> []) \<and> (\<exists>d\<in>set ?ds. hd (shape d) \<noteq> hd (shape (hd ?ds)))"
    by simp
  have d: "\<exists>d\<in>set [[1, 2, 3], [9, 8 :: nat]]. length d \<noteq> length (hd [[1, 2, 3], [9, 8 :: nat]])"
    by simp
  from a b c d
    mismatched_fields_fail[of "open_file ?fs1" "''train.h5''" ?f1 "[''images'', ''labels'']" ?rows
      None None Map.empty "[''images'']" 2 "''labels''" "[]" ?ds int None "[[1, 2, 3], [9, 8 :: nat]]" None]
    mismatched_fields_fail[of "open_file ?fs2" "''train.h5''" ?f2 "[]" ?rows
      None None Map.empty "[''images'']" 2 "''labels''" "[]" ?ds int None "[[1, 2, 3], [9, 8 :: nat]]" None]
  show ?thesis by simp
qed

text \<open>
  The claim as stated fails for the length mismatch: the message of the error names neither
  the key whose length differs nor the first key.
\<close>

theorem mismatch_message_counterexample:
  "H5Dataset_init (open_file [''train.h5'' \<mapsto> [''images'' \<mapsto> [1, 2 :: nat], ''labels'' \<mapsto> [7]]])
       ''train.h5'' [''images'', ''labels''] None None Map.empty
     = Inl (AssertionError ''Length of datasets do not match'')
   \<and> \<not> sublist ''labels'' ''Length of datasets do not match''
   \<and> \<not> sublist ''images'' ''Length of datasets do not match''"
proof -
  have a: "H5Dataset_init (open_file [''train.h5'' \<mapsto> [''images'' \<mapsto> [1, 2 :: nat], ''labels'' \<mapsto> [7]]])
       ''train.h5'' [''images'', ''labels''] None None Map.empty
     = Inl (AssertionError ''Length of datasets do not match'')"
    by (simp add: H5Dataset_init_def open_file_def)
  have b: "\<not> sublist ''labels'' ''Length of datasets do not match''" by code_simp
  have c: "\<not> sublist ''images'' ''Length of datasets do not match''" by code_simp
  from a b c show ?thesis by (intro conjI)
qed

end
